theory Spec2Isabelle
  imports Complex_Main
begin

section \<open>The Datadog sensor of faust (faust/sensors/datadog.py)\<close>

text \<open>
  The module has two classes: \<^verbatim>\<open>DatadogStatsClient\<close>, a facade over the
  \<^verbatim>\<open>DogStatsd\<close> client that encodes a dictionary of labels into tags, and
  \<^verbatim>\<open>DatadogStatsMonitor\<close>, a subclass of faust's \<^verbatim>\<open>Monitor\<close> whose hooks
  call the base class and the facade. The embedding below follows the source
  function by function. A leading underscore of a Python name is dropped
  (\<^verbatim>\<open>_stream_label\<close> is \<open>stream_label\<close>), and a name that is taken already gets a
  prime.
\<close>

subsection \<open>Python strings\<close>

text \<open>
  A Python \<^verbatim>\<open>str\<close> is a sequence of code points. Here a string is a \<open>char list\<close>
  and every \<open>char\<close> stands for one code point in the range 0..255 (Latin-1), so
  \<open>length\<close> counts code points; code points above 255 are outside the model.

  \<open>isspace\<close> is the white-space class of a \<^verbatim>\<open>str\<close> pattern: Unicode white space, which below
  256 is TAB, LF, VT, FF, CR, the separators 0x1C..0x1F, the space, NEL (0x85) and
  NBSP (0xA0).
\<close>

definition isspace :: "char \<Rightarrow> bool" where
  "isspace c = (of_char c \<in> {9, 10, 11, 12, 13, 28, 29, 30, 31, 32, 133, 160 :: nat})"

text \<open>
  \<^verbatim>\<open>str.lower()\<close>: below 256 the letters with a lower-case partner are A..Z and
  0xC0..0xDE without the multiplication sign 0xD7; the partner is 32 further on.
\<close>

definition lower_char :: "char \<Rightarrow> char" where
  "lower_char c =
     (let n = of_char c :: nat
      in if (65 \<le> n \<and> n \<le> 90) \<or> (192 \<le> n \<and> n \<le> 222 \<and> n \<noteq> 215)
         then char_of (n + 32) else c)"

definition lower :: "string \<Rightarrow> string" where
  "lower s = map lower_char s"

text \<open>
  \<^verbatim>\<open>s.lstrip(chars)\<close>, \<^verbatim>\<open>s.rstrip(chars)\<close> and \<^verbatim>\<open>s.strip(chars)\<close>: the argument is a
  set of characters, and every leading (trailing) character that belongs to the
  set is removed.
\<close>

definition lstrip :: "string \<Rightarrow> string \<Rightarrow> string" where
  "lstrip chars s = dropWhile (\<lambda>c. c \<in> set chars) s"

definition rstrip :: "string \<Rightarrow> string \<Rightarrow> string" where
  "rstrip chars s = rev (dropWhile (\<lambda>c. c \<in> set chars) (rev s))"

definition strip :: "string \<Rightarrow> string \<Rightarrow> string" where
  "strip chars s = rstrip chars (lstrip chars s)"

text \<open>
  \<^verbatim>\<open>pattern.sub(repl, s)\<close> for the two shapes of pattern the module compiles. A
  pattern \<^verbatim>\<open>[...]+\<close> is given by its character class: scanning from the left, each
  maximal run of characters of the class is replaced by \<open>repl\<close>. A pattern
  \<^verbatim>\<open>[...]\<close> replaces every single character of the class.
\<close>

function sub_runs :: "(char \<Rightarrow> bool) \<Rightarrow> string \<Rightarrow> string \<Rightarrow> string" where
  "sub_runs cls repl [] = []"
| "sub_runs cls repl (c # cs) =
     (if cls c then repl @ sub_runs cls repl (dropWhile cls cs)
      else c # sub_runs cls repl cs)"
  by pat_completeness auto
termination
  by (relation "measure (\<lambda>(cls, repl, s). length s)")
     (auto simp: less_Suc_eq_le length_dropWhile_le)

definition sub_each :: "(char \<Rightarrow> bool) \<Rightarrow> string \<Rightarrow> string \<Rightarrow> string" where
  "sub_each cls repl s = concat (map (\<lambda>c. if cls c then repl else [c]) s)"

text \<open>\<^verbatim>\<open>str(x)\<close> for the values that occur as label keys and values: strings and integers.\<close>

datatype pyval = PStr string | PInt int

definition digit_char :: "nat \<Rightarrow> char" where
  "digit_char d = char_of (48 + d)"

function digits :: "nat \<Rightarrow> string" where
  "digits n = (if n < 10 then [digit_char n] else digits (n div 10) @ [digit_char (n mod 10)])"
  by pat_completeness auto
termination
  by (relation "measure id") auto

fun str :: "pyval \<Rightarrow> string" where
  "str (PStr s) = s"
| "str (PInt i) = (if i < 0 then CHR ''-'' # digits (nat (- i)) else digits (nat i))"

subsection \<open>Python floats\<close>

text \<open>
  A Python \<^verbatim>\<open>float\<close> is a value of a type \<open>'f\<close> about which nothing is assumed. The
  arithmetic the module uses is a parameter \<open>fl\<close> of the functions that compute
  with floats: the product and the difference of two floats as Python computes
  them, rounding included, and the floats that the literals \<^verbatim>\<open>1000.\<close> and \<^verbatim>\<open>1.0\<close>
  denote. What is proved holds for every such arithmetic.
\<close>

record 'f floats =
  fmul :: "'f \<Rightarrow> 'f \<Rightarrow> 'f"
  fsub :: "'f \<Rightarrow> 'f \<Rightarrow> 'f"
  f1000 :: 'f
  f1 :: 'f

subsection \<open>Module constants\<close>

text \<open>
  \<^verbatim>\<open>RE_NORMALIZE\<close> is a compiled pattern of the shape \<^verbatim>\<open>[...]+\<close>; its class holds the
  less-than sign, the greater-than sign, the colon and white space. It is given by
  its character class.
\<close>

definition RE_NORMALIZE :: "char \<Rightarrow> bool" where
  "RE_NORMALIZE c = (c = CHR ''<'' \<or> c = CHR ''>'' \<or> c = CHR '':'' \<or> isspace c)"

definition RE_NORMALIZE_SUBSTITUTION :: string where
  "RE_NORMALIZE_SUBSTITUTION = ''_''"

subsection \<open>DatadogStatsClient\<close>

record DogStatsd =
  ds_host :: string
  ds_port :: int
  namespace :: string

text \<open>
  A client object: \<open>ident\<close> is the identity of the object (its address), given to
  it when it is constructed. The attributes \<^verbatim>\<open>sanitize_re\<close> and \<^verbatim>\<open>re_substitution\<close>
  get the same value in every client and are constants here.
\<close>

record 'f DatadogStatsClient =
  ident :: nat
  client :: DogStatsd
  rate :: 'f

definition DatadogStatsClient_init ::
    "nat \<Rightarrow> string \<Rightarrow> int \<Rightarrow> string \<Rightarrow> 'f \<Rightarrow> 'f DatadogStatsClient" where
  "DatadogStatsClient_init i h p pre r =
     \<lparr>ident = i, client = \<lparr>ds_host = h, ds_port = p, namespace = pre\<rparr>, rate = r\<rparr>"

text \<open>\<^verbatim>\<open>sanitize_re = re.compile("[^0-9a-zA-Z_]")\<close>: the class is the complement of \<open>word_char\<close>.\<close>

definition word_char :: "char \<Rightarrow> bool" where
  "word_char c =
     (let n = of_char c :: nat
      in (48 \<le> n \<and> n \<le> 57) \<or> (97 \<le> n \<and> n \<le> 122) \<or> (65 \<le> n \<and> n \<le> 90) \<or> c = CHR ''_'')"

definition sanitize_re :: "char \<Rightarrow> bool" where
  "sanitize_re c = (\<not> word_char c)"

definition re_substitution :: string where
  "re_substitution = ''_''"

definition sanitize :: "pyval \<Rightarrow> string" where
  "sanitize s = sub_each sanitize_re re_substitution (str s)"

text \<open>
  A label dictionary is an association list in insertion order; the argument
  \<^verbatim>\<open>labels\<close> is \<^verbatim>\<open>None\<close> or a dictionary. \<^verbatim>\<open>_encode_labels\<close> tests the truth value of
  \<^verbatim>\<open>labels\<close>: \<^verbatim>\<open>None\<close> and the empty dictionary are false.
\<close>

type_synonym labels = "(pyval \<times> pyval) list"

definition encode_labels :: "labels option \<Rightarrow> string list option" where
  "encode_labels ls =
     (case ls of
        None \<Rightarrow> None
      | Some kvs \<Rightarrow>
          if kvs = [] then None
          else Some (map (\<lambda>(k, v). sanitize k @ '':'' @ sanitize v) kvs))"

text \<open>
  What a method of the facade hands to \<^verbatim>\<open>DogStatsd\<close>: the method called, the metric,
  the value, the tags and the sample rate. The record keeps the \<^verbatim>\<open>labels\<close> argument
  of the facade call beside the tags that were made of it.
\<close>

datatype 'f num = NInt int | NFloat 'f

datatype kind = Gauge | Increment | Decrement | Timing | Histogram

record 'f metric_call =
  kind :: kind
  metric :: string
  val :: "'f num"
  labels :: "labels option"
  tags :: "string list option"
  sample_rate :: 'f

definition gauge :: "'f DatadogStatsClient \<Rightarrow> string \<Rightarrow> 'f num \<Rightarrow> labels option \<Rightarrow> 'f metric_call" where
  "gauge self m v ls =
     \<lparr>kind = Gauge, metric = m, val = v, labels = ls,
      tags = encode_labels ls, sample_rate = rate self\<rparr>"

definition increment :: "'f DatadogStatsClient \<Rightarrow> string \<Rightarrow> 'f num \<Rightarrow> labels option \<Rightarrow> 'f metric_call" where
  "increment self m v ls =
     \<lparr>kind = Increment, metric = m, val = v, labels = ls,
      tags = encode_labels ls, sample_rate = rate self\<rparr>"

definition decrement :: "'f DatadogStatsClient \<Rightarrow> string \<Rightarrow> 'f num \<Rightarrow> labels option \<Rightarrow> 'f metric_call" where
  "decrement self m v ls =
     \<lparr>kind = Decrement, metric = m, val = v, labels = ls,
      tags = encode_labels ls, sample_rate = rate self\<rparr>"

definition timing :: "'f DatadogStatsClient \<Rightarrow> string \<Rightarrow> 'f num \<Rightarrow> labels option \<Rightarrow> 'f metric_call" where
  "timing self m v ls =
     \<lparr>kind = Timing, metric = m, val = v, labels = ls,
      tags = encode_labels ls, sample_rate = rate self\<rparr>"

definition histogram :: "'f DatadogStatsClient \<Rightarrow> string \<Rightarrow> 'f num \<Rightarrow> labels option \<Rightarrow> 'f metric_call" where
  "histogram self m v ls =
     \<lparr>kind = Histogram, metric = m, val = v, labels = ls,
      tags = encode_labels ls, sample_rate = rate self\<rparr>"

text \<open>\<^verbatim>\<open>timed\<close> has no value; its metric and \<^verbatim>\<open>use_ms\<close> may be \<^verbatim>\<open>None\<close>.\<close>

record 'f timed_call =
  timed_metric :: "string option"
  timed_labels :: "labels option"
  timed_tags :: "string list option"
  timed_sample_rate :: 'f
  use_ms :: "bool option"

definition timed ::
    "'f DatadogStatsClient \<Rightarrow> string option \<Rightarrow> labels option \<Rightarrow> bool option \<Rightarrow> 'f timed_call" where
  "timed self m ls ms =
     \<lparr>timed_metric = m, timed_labels = ls, timed_tags = encode_labels ls,
      timed_sample_rate = rate self, use_ms = ms\<rparr>"

text \<open>The defaults of the signatures: \<^verbatim>\<open>value=1\<close> for increment, \<^verbatim>\<open>value=1.0\<close> for decrement.\<close>

definition increment_default :: "'f num" where
  "increment_default = NInt 1"

definition decrement_default :: "'f floats \<Rightarrow> 'f num" where
  "decrement_default fl = NFloat (f1 fl)"

definition incr :: "'f DatadogStatsClient \<Rightarrow> string \<Rightarrow> 'f num \<Rightarrow> 'f metric_call" where
  "incr self m count = increment self m count None"

definition decr :: "'f DatadogStatsClient \<Rightarrow> string \<Rightarrow> 'f num \<Rightarrow> 'f metric_call" where
  "decr self m count = decrement self m count None"

subsection \<open>Loading the module\<close>

datatype exn = ImportError | ImproperlyConfigured | IndexError

datatype module = DatadogModule

record module_globals =
  datadog :: "module option"

text \<open>
  An import of the \<^verbatim>\<open>datadog\<close> package (or of a name from it) succeeds when the
  package is installed and raises \<^verbatim>\<open>ImportError\<close> otherwise.
\<close>

definition import_datadog :: "bool \<Rightarrow> exn + module" where
  "import_datadog installed = (if installed then Inr DatadogModule else Inl ImportError)"

text \<open>
  The top of the module: line 3 imports \<^verbatim>\<open>DogStatsd\<close> from the package with no
  handler; lines 14 to 17 import the package again inside \<^verbatim>\<open>try\<close>, and the handler
  of \<^verbatim>\<open>ImportError\<close> binds \<^verbatim>\<open>datadog\<close> to \<^verbatim>\<open>None\<close>.
\<close>

definition load_module :: "bool \<Rightarrow> exn + module_globals" where
  "load_module installed =
     (case import_datadog installed of
        Inl e \<Rightarrow> Inl e
      | Inr _ \<Rightarrow>
          (case import_datadog installed of
             Inr m \<Rightarrow> Inr \<lparr>datadog = Some m\<rparr>
           | Inl e \<Rightarrow> if e = ImportError then Inr \<lparr>datadog = None\<rparr> else Inl e))"

subsection \<open>The objects the hooks receive\<close>

record TP =
  topic :: string
  partition' :: int

record StreamT =
  shortlabel :: string

record CollectionT =
  name :: string

text \<open>
  A call of a hook with its arguments, as it is passed on to the base class. The
  arguments the sensor only passes on (message, event, key, value, consumer,
  producer) are of a type \<open>'o\<close> about which nothing is known; the state of a
  commit or of a send is the time stamp at which it started.
\<close>

datatype ('o, 'f) hook_call =
    OnMessageIn TP int 'o
  | OnStreamEventIn TP int StreamT 'o
  | OnStreamEventOut TP int StreamT 'o
  | OnMessageOut TP int 'o
  | OnTableGet CollectionT 'o
  | OnTableSet CollectionT 'o 'o
  | OnTableDel CollectionT 'o
  | OnCommitCompleted 'o 'f
  | OnSendInitiated 'o string int int
  | OnSendCompleted 'o 'f
  | Count string int
  | OnTpCommit "(TP \<times> int) list"
  | TrackTpEndOffset TP int

subsection \<open>DatadogStatsMonitor: state\<close>

text \<open>
  Modelled from the spec: the base class \<^verbatim>\<open>Monitor\<close> (faust/sensors/monitor.py) is
  not among the source files. The spec describes it as the host runtime's default
  bookkeeping, which maintains the history of recent event runtimes that the
  sensor reads. Its state is that history and a rest of unknown type \<open>'b\<close>; its
  constructor and its hooks are parameters \<open>base_init\<close> and \<open>base\<close> of the functions
  below, a hook mapping the call and the state of the base class to a returned
  value and a new state.
\<close>

record ('b, 'f) Monitor =
  events_runtime :: "'f list"
  rest :: 'b

type_synonym ('b, 'o, 'f, 'r) base_hooks =
  "('o, 'f) hook_call \<Rightarrow> ('b, 'f) Monitor \<Rightarrow> 'r \<times> ('b, 'f) Monitor"

text \<open>
  The attributes of a sensor. \<open>client_cache\<close> is the entry of the cached property
  \<^verbatim>\<open>client\<close> in the dictionary of the instance: \<open>None\<close> while there is no entry.
\<close>

record ('b, 'f) DatadogStatsMonitor =
  host :: string
  port :: int
  prefix :: string
  rate' :: 'f
  client_cache :: "'f DatadogStatsClient option"
  monitor :: "('b, 'f) Monitor"

text \<open>
  What a hook does to the world outside the sensor is recorded in a trace: a call
  of the base class, or a call of a method of the client with what it hands on.
  \<open>next_id\<close> is the identity the next constructed object gets.
\<close>

datatype ('o, 'f) event = Delegate "('o, 'f) hook_call" | Emit "'f metric_call"

record ('b, 'o, 'f) world =
  sensor :: "('b, 'f) DatadogStatsMonitor"
  trace :: "('o, 'f) event list"
  next_id :: nat

subsection \<open>DatadogStatsMonitor: construction and the client property\<close>

definition DatadogStatsMonitor_init ::
    "module_globals \<Rightarrow> ('k \<Rightarrow> ('b, 'f) Monitor) \<Rightarrow> string \<Rightarrow> int \<Rightarrow> string \<Rightarrow> 'f \<Rightarrow> 'k
      \<Rightarrow> exn + ('b, 'f) DatadogStatsMonitor" where
  "DatadogStatsMonitor_init g base_init h p pre r kwargs =
     (if datadog g = None then Inl ImproperlyConfigured
      else Inr \<lparr>host = h, port = p, prefix = pre, rate' = r, client_cache = None,
                monitor = base_init kwargs\<rparr>)"

text \<open>Importing the module and then calling the class, in an environment.\<close>

definition import_and_construct ::
    "bool \<Rightarrow> ('k \<Rightarrow> ('b, 'f) Monitor) \<Rightarrow> string \<Rightarrow> int \<Rightarrow> string \<Rightarrow> 'f \<Rightarrow> 'k
      \<Rightarrow> exn + ('b, 'f) DatadogStatsMonitor" where
  "import_and_construct installed base_init h p pre r kwargs =
     (case load_module installed of
        Inl e \<Rightarrow> Inl e
      | Inr g \<Rightarrow> DatadogStatsMonitor_init g base_init h p pre r kwargs)"

definition new_datadog_stats_client :: "('b, 'f) DatadogStatsMonitor \<Rightarrow> nat \<Rightarrow> 'f DatadogStatsClient" where
  "new_datadog_stats_client self i =
     DatadogStatsClient_init i (host self) (port self) (prefix self) (rate' self)"

text \<open>
  The cached property \<^verbatim>\<open>client\<close>: an access returns the entry of the instance when
  there is one, and otherwise calls \<^verbatim>\<open>_new_datadog_stats_client\<close>, stores the new
  object as the entry and returns it.
\<close>

definition client_property :: "('b, 'o, 'f) world \<Rightarrow> 'f DatadogStatsClient \<times> ('b, 'o, 'f) world" where
  "client_property w =
     (case client_cache (sensor w) of
        Some c \<Rightarrow> (c, w)
      | None \<Rightarrow>
          (let c = new_datadog_stats_client (sensor w) (next_id w)
           in (c, w\<lparr>sensor := (sensor w)\<lparr>client_cache := Some c\<rparr>,
                     next_id := Suc (next_id w)\<rparr>)))"

subsection \<open>DatadogStatsMonitor: labels\<close>

definition normalize :: "(char \<Rightarrow> bool) \<Rightarrow> string \<Rightarrow> string \<Rightarrow> string" where
  "normalize pattern substitution nm = sub_runs pattern substitution nm"

definition time :: "'f floats \<Rightarrow> 'f \<Rightarrow> 'f" where
  "time fl t = fmul fl t (f1000 fl)"

definition stream_label :: "StreamT \<Rightarrow> string" where
  "stream_label stream =
     lower (strip ''_''
       (normalize RE_NORMALIZE RE_NORMALIZE_SUBSTITUTION
          (lstrip ''Stream:'' (shortlabel stream))))"

text \<open>
  \<^verbatim>\<open>d[k] = v\<close> on a dictionary in insertion order: the value of an existing key is
  replaced in place, a new key goes to the end. \<^verbatim>\<open>d.update(e)\<close> does so for every
  item of \<open>e\<close> in order.
\<close>

fun dict_set :: "'k \<Rightarrow> 'v \<Rightarrow> ('k \<times> 'v) list \<Rightarrow> ('k \<times> 'v) list" where
  "dict_set k v [] = [(k, v)]"
| "dict_set k v ((k', v') # d) = (if k' = k then (k, v) # d else (k', v') # dict_set k v d)"

fun dict_update :: "('k \<times> 'v) list \<Rightarrow> ('k \<times> 'v) list \<Rightarrow> ('k \<times> 'v) list" where
  "dict_update d [] = d"
| "dict_update d ((k, v) # e) = dict_update (dict_set k v d) e"

definition format_label :: "TP option \<Rightarrow> StreamT option \<Rightarrow> CollectionT option \<Rightarrow> labels" where
  "format_label tp stream table =
     (let ls = [];
          ls = (case tp of
                  None \<Rightarrow> ls
                | Some t \<Rightarrow>
                    dict_update ls
                      [(PStr ''topic'', PStr (topic t)),
                       (PStr ''partition'', PInt (partition' t))]);
          ls = (case stream of
                  None \<Rightarrow> ls
                | Some s \<Rightarrow> dict_update ls [(PStr ''stream'', PStr (stream_label s))]);
          ls = (case table of
                  None \<Rightarrow> ls
                | Some c \<Rightarrow> dict_update ls [(PStr ''table'', PStr (name c))])
      in ls)"

subsection \<open>DatadogStatsMonitor: hooks\<close>

text \<open>
  \<^verbatim>\<open>super().hook(...)\<close>: the base class works on its own state, and the call is
  recorded.
\<close>

definition super ::
    "('b, 'o, 'f, 'r) base_hooks \<Rightarrow> ('o, 'f) hook_call \<Rightarrow> ('b, 'o, 'f) world \<Rightarrow> 'r \<times> ('b, 'o, 'f) world" where
  "super base call w =
     (let (r, m) = base call (monitor (sensor w))
      in (r, w\<lparr>sensor := (sensor w)\<lparr>monitor := m\<rparr>, trace := trace w @ [Delegate call]\<rparr>))"

text \<open>
  \<^verbatim>\<open>self.client.method(...)\<close>: the property is read, then the method of the client
  it returned is called.
\<close>

definition client_call ::
    "('f DatadogStatsClient \<Rightarrow> 'f metric_call) \<Rightarrow> ('b, 'o, 'f) world \<Rightarrow> ('b, 'o, 'f) world" where
  "client_call method w =
     (let (c, w1) = client_property w
      in w1\<lparr>trace := trace w1 @ [Emit (method c)]\<rparr>)"

text \<open>\<^verbatim>\<open>xs[i]\<close>: a negative index counts from the end; an index out of range raises.\<close>

definition getitem :: "'a list \<Rightarrow> int \<Rightarrow> exn + 'a" where
  "getitem xs i =
     (let j = (if i < 0 then i + int (length xs) else i)
      in if j < 0 \<or> int (length xs) \<le> j then Inl IndexError else Inr (xs ! nat j))"

text \<open>
  A hook returns the new world and either an exception or its value, \<open>None\<close> for
  Python's \<^verbatim>\<open>None\<close>. The hooks that read the clock take the reading \<open>now\<close> of
  \<^verbatim>\<open>monotonic()\<close> as an argument.
\<close>

type_synonym ('b, 'o, 'f, 'r) hook_result = "(exn + 'r option) \<times> ('b, 'o, 'f) world"

definition on_message_in ::
    "('b, 'o, 'f, 'r) base_hooks \<Rightarrow> TP \<Rightarrow> int \<Rightarrow> 'o
      \<Rightarrow> ('b, 'o, 'f) world \<Rightarrow> ('b, 'o, 'f, 'r) hook_result" where
  "on_message_in base tp offset message w =
     (let (r, w) = super base (OnMessageIn tp offset message) w;
          ls = format_label (Some tp) None None;
          w = client_call (\<lambda>c. increment c ''messages_received'' increment_default (Some ls)) w;
          w = client_call (\<lambda>c. increment c ''messages_active'' increment_default (Some ls)) w;
          w = client_call (\<lambda>c. gauge c ''read_offset'' (NInt offset) (Some ls)) w
      in (Inr None, w))"

definition on_stream_event_in ::
    "('b, 'o, 'f, 'r) base_hooks \<Rightarrow> TP \<Rightarrow> int \<Rightarrow> StreamT \<Rightarrow> 'o
      \<Rightarrow> ('b, 'o, 'f) world \<Rightarrow> ('b, 'o, 'f, 'r) hook_result" where
  "on_stream_event_in base tp offset stream event w =
     (let (r, w) = super base (OnStreamEventIn tp offset stream event) w;
          ls = format_label (Some tp) (Some stream) None;
          w = client_call (\<lambda>c. increment c ''events'' increment_default (Some ls)) w;
          w = client_call (\<lambda>c. increment c ''events_active'' increment_default (Some ls)) w
      in (Inr None, w))"

text \<open>
  The arguments of the call of \<^verbatim>\<open>timing\<close> are evaluated after the property is
  read and before the method runs: when the read of the last runtime raises,
  nothing more is emitted.
\<close>

definition on_stream_event_out ::
    "'f floats \<Rightarrow> ('b, 'o, 'f, 'r) base_hooks \<Rightarrow> TP \<Rightarrow> int \<Rightarrow> StreamT \<Rightarrow> 'o
      \<Rightarrow> ('b, 'o, 'f) world \<Rightarrow> ('b, 'o, 'f, 'r) hook_result" where
  "on_stream_event_out fl base tp offset stream event w =
     (let (r, w) = super base (OnStreamEventOut tp offset stream event) w;
          ls = format_label (Some tp) (Some stream) None;
          w = client_call (\<lambda>c. decrement c ''events_active'' (decrement_default fl) (Some ls)) w;
          (c, w) = client_property w
      in case getitem (events_runtime (monitor (sensor w))) (- 1) of
           Inl e \<Rightarrow> (Inl e, w)
         | Inr t \<Rightarrow>
             (Inr None,
              w\<lparr>trace := trace w @ [Emit (timing c ''events_runtime'' (NFloat (time fl t)) (Some ls))]\<rparr>))"

definition on_message_out ::
    "'f floats \<Rightarrow> ('b, 'o, 'f, 'r) base_hooks \<Rightarrow> TP \<Rightarrow> int \<Rightarrow> 'o
      \<Rightarrow> ('b, 'o, 'f) world \<Rightarrow> ('b, 'o, 'f, 'r) hook_result" where
  "on_message_out fl base tp offset message w =
     (let (r, w) = super base (OnMessageOut tp offset message) w;
          w = client_call
                (\<lambda>c. decrement c ''messages_active'' (decrement_default fl)
                        (Some (format_label (Some tp) None None))) w
      in (Inr None, w))"

definition on_table_get ::
    "('b, 'o, 'f, 'r) base_hooks \<Rightarrow> CollectionT \<Rightarrow> 'o
      \<Rightarrow> ('b, 'o, 'f) world \<Rightarrow> ('b, 'o, 'f, 'r) hook_result" where
  "on_table_get base table key w =
     (let (r, w) = super base (OnTableGet table key) w;
          w = client_call
                (\<lambda>c. increment c ''table_keys_retrieved'' increment_default
                        (Some (format_label None None (Some table)))) w
      in (Inr None, w))"

definition on_table_set ::
    "('b, 'o, 'f, 'r) base_hooks \<Rightarrow> CollectionT \<Rightarrow> 'o \<Rightarrow> 'o
      \<Rightarrow> ('b, 'o, 'f) world \<Rightarrow> ('b, 'o, 'f, 'r) hook_result" where
  "on_table_set base table key v w =
     (let (r, w) = super base (OnTableSet table key v) w;
          w = client_call
                (\<lambda>c. increment c ''table_keys_updated'' increment_default
                        (Some (format_label None None (Some table)))) w
      in (Inr None, w))"

definition on_table_del ::
    "('b, 'o, 'f, 'r) base_hooks \<Rightarrow> CollectionT \<Rightarrow> 'o
      \<Rightarrow> ('b, 'o, 'f) world \<Rightarrow> ('b, 'o, 'f, 'r) hook_result" where
  "on_table_del base table key w =
     (let (r, w) = super base (OnTableDel table key) w;
          w = client_call
                (\<lambda>c. increment c ''table_keys_deleted'' increment_default
                        (Some (format_label None None (Some table)))) w
      in (Inr None, w))"

definition on_commit_completed ::
    "'f floats \<Rightarrow> ('b, 'o, 'f, 'r) base_hooks \<Rightarrow> 'f \<Rightarrow> 'o \<Rightarrow> 'f
      \<Rightarrow> ('b, 'o, 'f) world \<Rightarrow> ('b, 'o, 'f, 'r) hook_result" where
  "on_commit_completed fl base now consumer state w =
     (let (r, w) = super base (OnCommitCompleted consumer state) w;
          w = client_call
                (\<lambda>c. timing c ''commit_latency'' (NFloat (time fl (fsub fl now state))) None) w
      in (Inr None, w))"

definition on_send_initiated ::
    "('b, 'o, 'f, 'r) base_hooks \<Rightarrow> 'o \<Rightarrow> string \<Rightarrow> int \<Rightarrow> int
      \<Rightarrow> ('b, 'o, 'f) world \<Rightarrow> ('b, 'o, 'f, 'r) hook_result" where
  "on_send_initiated base producer tpc keysize valsize w =
     (let w = client_call
                (\<lambda>c. increment c ''topic_messages_sent'' increment_default
                        (Some [(PStr ''topic'', PStr tpc)])) w;
          (r, w) = super base (OnSendInitiated producer tpc keysize valsize) w
      in (Inr (Some r), w))"

definition on_send_completed ::
    "'f floats \<Rightarrow> ('b, 'o, 'f, 'r) base_hooks \<Rightarrow> 'f \<Rightarrow> 'o \<Rightarrow> 'f
      \<Rightarrow> ('b, 'o, 'f) world \<Rightarrow> ('b, 'o, 'f, 'r) hook_result" where
  "on_send_completed fl base now producer state w =
     (let (r, w) = super base (OnSendCompleted producer state) w;
          w = client_call (\<lambda>c. increment c ''messages_sent'' increment_default None) w;
          w = client_call
                (\<lambda>c. timing c ''send_latency'' (NFloat (time fl (fsub fl now state))) None) w
      in (Inr None, w))"

definition count ::
    "('b, 'o, 'f, 'r) base_hooks \<Rightarrow> string \<Rightarrow> int
      \<Rightarrow> ('b, 'o, 'f) world \<Rightarrow> ('b, 'o, 'f, 'r) hook_result" where
  "count base metric_name n w =
     (let (r, w) = super base (Count metric_name n) w;
          w = client_call (\<lambda>c. increment c metric_name (NInt n) None) w
      in (Inr None, w))"

text \<open>The loop of \<^verbatim>\<open>on_tp_commit\<close> over the items of the mapping, in their order.\<close>

fun tp_commit_loop :: "(TP \<times> int) list \<Rightarrow> ('b, 'o, 'f) world \<Rightarrow> ('b, 'o, 'f) world" where
  "tp_commit_loop [] w = w"
| "tp_commit_loop ((tp, offset) # items) w =
     tp_commit_loop items
       (client_call
          (\<lambda>c. gauge c ''committed_offset'' (NInt offset)
                  (Some (format_label (Some tp) None None))) w)"

definition on_tp_commit ::
    "('b, 'o, 'f, 'r) base_hooks \<Rightarrow> (TP \<times> int) list
      \<Rightarrow> ('b, 'o, 'f) world \<Rightarrow> ('b, 'o, 'f, 'r) hook_result" where
  "on_tp_commit base tp_offsets w =
     (let (r, w) = super base (OnTpCommit tp_offsets) w
      in (Inr None, tp_commit_loop tp_offsets w))"

definition track_tp_end_offset ::
    "('b, 'o, 'f, 'r) base_hooks \<Rightarrow> TP \<Rightarrow> int
      \<Rightarrow> ('b, 'o, 'f) world \<Rightarrow> ('b, 'o, 'f, 'r) hook_result" where
  "track_tp_end_offset base tp offset w =
     (let (r, w) = super base (TrackTpEndOffset tp offset) w;
          w = client_call
                (\<lambda>c. gauge c ''end_offset'' (NInt offset)
                        (Some (format_label (Some tp) None None))) w
      in (Inr None, w))"

text \<open>The host runtime invoking a hook of the sensor.\<close>

fun run_hook ::
    "'f floats \<Rightarrow> ('b, 'o, 'f, 'r) base_hooks \<Rightarrow> 'f \<Rightarrow> ('o, 'f) hook_call
      \<Rightarrow> ('b, 'o, 'f) world \<Rightarrow> ('b, 'o, 'f, 'r) hook_result" where
  "run_hook fl base now (OnMessageIn tp offset message) w = on_message_in base tp offset message w"
| "run_hook fl base now (OnStreamEventIn tp offset stream event) w =
     on_stream_event_in base tp offset stream event w"
| "run_hook fl base now (OnStreamEventOut tp offset stream event) w =
     on_stream_event_out fl base tp offset stream event w"
| "run_hook fl base now (OnMessageOut tp offset message) w = on_message_out fl base tp offset message w"
| "run_hook fl base now (OnTableGet table key) w = on_table_get base table key w"
| "run_hook fl base now (OnTableSet table key v) w = on_table_set base table key v w"
| "run_hook fl base now (OnTableDel table key) w = on_table_del base table key w"
| "run_hook fl base now (OnCommitCompleted consumer state) w =
     on_commit_completed fl base now consumer state w"
| "run_hook fl base now (OnSendInitiated producer tpc keysize valsize) w =
     on_send_initiated base producer tpc keysize valsize w"
| "run_hook fl base now (OnSendCompleted producer state) w =
     on_send_completed fl base now producer state w"
| "run_hook fl base now (Count metric_name n) w = count base metric_name n w"
| "run_hook fl base now (OnTpCommit tp_offsets) w = on_tp_commit base tp_offsets w"
| "run_hook fl base now (TrackTpEndOffset tp offset) w = track_tp_end_offset base tp offset w"

subsection \<open>The label of a stream as the specification words it\<close>

text \<open>
  The specification derives the label of a stream in four steps: strip the
  substring \<^verbatim>\<open>Stream:\<close> from the front, collapse every run of the separators into
  one underscore, trim leading and trailing underscores, lower-case. The first
  step is written here as the removal of a prefix; the other three are the
  functions of the source.
\<close>

definition remove_prefix :: "string \<Rightarrow> string \<Rightarrow> string" where
  "remove_prefix p s = (if take (length p) s = p then drop (length p) s else s)"

definition stream_label_spec :: "string \<Rightarrow> string" where
  "stream_label_spec s =
     lower (strip ''_'' (sub_runs RE_NORMALIZE ''_'' (remove_prefix ''Stream:'' s)))"

subsection \<open>Concrete inputs\<close>

text \<open>
  For the concrete inputs the floats are real numbers with exact arithmetic; the
  products that occur there (a quarter times 1000) are exact in Python too. A base
  class that leaves its state as it is and returns 0, a base class that records
  the runtime \<open>t\<close> of a finished stream event as the last of the history, a sensor
  right after its construction with the default arguments, and the same sensor
  with two recorded runtimes.
\<close>

definition exact_floats :: "real floats" where
  "exact_floats = \<lparr>fmul = (*), fsub = (-), f1000 = 1000, f1 = 1\<rparr>"

definition idle_base :: "(unit, unit, real, real) base_hooks" where
  "idle_base call m = (0, m)"

definition recording_base :: "real \<Rightarrow> (unit, unit, real, real) base_hooks" where
  "recording_base t call m =
     (case call of
        OnStreamEventOut tp offset stream event \<Rightarrow>
          (0, m\<lparr>events_runtime := events_runtime m @ [t]\<rparr>)
      | _ \<Rightarrow> (0, m))"

definition fresh_world :: "(unit, unit, real) world" where
  "fresh_world =
     \<lparr>sensor = \<lparr>host = ''localhost'', port = 8125, prefix = ''faust-app'', rate' = 1,
                 client_cache = None, monitor = \<lparr>events_runtime = [], rest = ()\<rparr>\<rparr>,
      trace = [], next_id = 0\<rparr>"

definition busy_world :: "(unit, unit, real) world" where
  "busy_world =
     fresh_world\<lparr>sensor := (sensor fresh_world)\<lparr>monitor := \<lparr>events_runtime = [1 / 2, 1 / 4], rest = ()\<rparr>\<rparr>\<rparr>"

definition orders_2 :: TP where
  "orders_2 = \<lparr>topic = ''orders'', partition' = 2\<rparr>"

definition is_send_initiated :: "('o, 'f) hook_call \<Rightarrow> bool" where
  "is_send_initiated call =
     (case call of OnSendInitiated producer tpc keysize valsize \<Rightarrow> True | _ \<Rightarrow> False)"

section \<open>Properties\<close>

subsection \<open>The label of a stream\<close>

text \<open>
  On a label that starts with \<^verbatim>\<open>Stream:\<close> and goes on with a character that is not
  one of S, t, r, e, a, m and the colon (or with nothing), the source and the
  specification's wording give the same label. The labels faust makes have a
  space at that place.
\<close>

lemma stream_label_agrees_after_prefix:
  "s = [] \<or> hd s \<notin> set ''Stream:'' \<Longrightarrow>
     stream_label \<lparr>shortlabel = ''Stream:'' @ s\<rparr> = stream_label_spec (''Stream:'' @ s)"
  by (cases s) (auto simp: stream_label_def stream_label_spec_def lstrip_def remove_prefix_def
      normalize_def RE_NORMALIZE_SUBSTITUTION_def)

lemma stream_label_withdrawals:
  "stream_label \<lparr>shortlabel = ''Stream: <Topic: withdrawals>''\<rparr> = ''topic_withdrawals''"
  by code_simp

text \<open>
  C1. The claim: the label of a stream is its human-readable label with the
  substring \<^verbatim>\<open>Stream:\<close> stripped from the front, the runs of separators collapsed
  to one underscore, the underscores at both ends trimmed, in lower case. The
  source calls \<^verbatim>\<open>lstrip('Stream:')\<close>, which removes every leading character out of
  the set S, t, r, e, a, m and colon, not the prefix: on the label
  \<^verbatim>\<open>Stream:rates\<close> the source gives \<^verbatim>\<open>s\<close> where the claim gives \<^verbatim>\<open>rates\<close>, and on
  \<^verbatim>\<open>Streamer: Topic: foo\<close>, which has no such prefix, the source still removes
  the first word.
\<close>

theorem stream_label_strips_character_set:
  "stream_label \<lparr>shortlabel = ''Stream:rates''\<rparr> = ''s''
   \<and> stream_label_spec ''Stream:rates'' = ''rates''
   \<and> stream_label \<lparr>shortlabel = ''Streamer: Topic: foo''\<rparr> = ''topic_foo''
   \<and> stream_label_spec ''Streamer: Topic: foo'' = ''streamer_topic_foo''"
  by code_simp

subsection \<open>Construction\<close>

text \<open>
  The constructor itself raises the configuration error exactly when the global
  \<^verbatim>\<open>datadog\<close> of the module is \<^verbatim>\<open>None\<close>; but a module that has been loaded never
  has it so, since the import of line 3 has succeeded before the guarded one runs.
\<close>

lemma init_raises_iff_datadog_None:
  "(DatadogStatsMonitor_init g base_init h p pre r kwargs = Inl ImproperlyConfigured)
     = (datadog g = None)"
  by (simp add: DatadogStatsMonitor_init_def)

lemma load_module_datadog_bound:
  "load_module installed = Inr g \<Longrightarrow> datadog g \<noteq> None"
  by (auto simp: load_module_def import_datadog_def split: if_splits)

lemma import_and_construct_never_ImproperlyConfigured:
  "import_and_construct installed base_init h p pre r kwargs \<noteq> Inl ImproperlyConfigured"
  by (simp add: import_and_construct_def load_module_def import_datadog_def
      DatadogStatsMonitor_init_def)

text \<open>
  C7. The claim: constructing the sensor raises \<^verbatim>\<open>ImproperlyConfigured\<close> if and only
  if the datadog library is unavailable. Where the library is not installed, the
  import at line 3 of the module raises \<^verbatim>\<open>ImportError\<close> with no handler, so the
  module does not load, the class is never defined, and what the caller gets is
  \<^verbatim>\<open>ImportError\<close>, for every argument of the constructor.
\<close>

theorem construct_without_library_is_ImportError:
  "import_and_construct False base_init h p pre r kwargs = Inl ImportError"
  by (simp add: import_and_construct_def load_module_def import_datadog_def)

subsection \<open>The facade\<close>

text \<open>
  C8. For each of the six operations of the facade, when the labels argument is
  \<^verbatim>\<open>None\<close> the call handed to the transport has \<^verbatim>\<open>None\<close> as its tags, and when the
  labels argument is the empty dictionary it has \<^verbatim>\<open>None\<close> as its tags too, not
  the empty list.
\<close>

theorem absent_or_empty_labels_give_no_tags:
  "tags (gauge c m v None) = None \<and> tags (gauge c m v (Some [])) = None
   \<and> tags (increment c m v None) = None \<and> tags (increment c m v (Some [])) = None
   \<and> tags (decrement c m v None) = None \<and> tags (decrement c m v (Some [])) = None
   \<and> tags (timing c m v None) = None \<and> tags (timing c m v (Some [])) = None
   \<and> tags (histogram c m v None) = None \<and> tags (histogram c m v (Some [])) = None
   \<and> timed_tags (timed c mo None ms) = None \<and> timed_tags (timed c mo (Some []) ms) = None"
  by (simp add: gauge_def increment_def decrement_def timing_def histogram_def timed_def
      encode_labels_def)

text \<open>
  Sanitizing replaces character by character, and what comes out has word
  characters only, so it matches the pattern \<^verbatim>\<open>^[0-9a-zA-Z_]*$\<close>.
\<close>

lemma sub_each_map:
  "sub_each cls [r] s = map (\<lambda>c. if cls c then r else c) s"
  by (induction s) (simp_all add: sub_each_def)

lemma sanitize_map:
  "sanitize x = map (\<lambda>ch. if word_char ch then ch else CHR ''_'') (str x)"
  by (simp add: sanitize_def re_substitution_def sub_each_map sanitize_re_def)

lemma word_char_underscore: "word_char CHR ''_''"
  by (simp add: word_char_def)

lemma sanitize_word: "list_all word_char (sanitize x)"
  by (auto simp: sanitize_map list_all_iff word_char_underscore)

lemma sanitize_keys:
  "sanitize (PStr ''topic'') = ''topic''"
  "sanitize (PStr ''partition'') = ''partition''"
  "sanitize (PStr ''stream'') = ''stream''"
  "sanitize (PStr ''table'') = ''table''"
  by code_simp+

lemma sanitize_examples:
  "sanitize (PStr ''orders'') = ''orders''"
  "sanitize (PInt 2) = ''2''"
  "sanitize (PStr ''topic_orders'') = ''topic_orders''"
  "sanitize (PStr ''payments'') = ''payments''"
  "sanitize (PStr ''my-topic'') = ''my_topic''"
  "sanitize (PInt (- 1)) = ''_1''"
  by code_simp+

text \<open>
  C3. For a label set that is not empty, each of the six operations of the facade
  hands on one tag per item, made of the sanitized key, a colon and the sanitized
  value. Every sanitized key and every sanitized value consists of characters of
  \<^verbatim>\<open>[0-9a-zA-Z_]\<close> only, and it is the string of the key (of the value) with each
  character outside that class replaced by an underscore: a key and a value are
  sanitized each on its own.
\<close>

theorem labels_sanitized:
  "kvs \<noteq> [] \<longrightarrow>
     tags (gauge c m v (Some kvs)) = Some (map (\<lambda>(k, x). sanitize k @ '':'' @ sanitize x) kvs)
   \<and> tags (increment c m v (Some kvs)) = Some (map (\<lambda>(k, x). sanitize k @ '':'' @ sanitize x) kvs)
   \<and> tags (decrement c m v (Some kvs)) = Some (map (\<lambda>(k, x). sanitize k @ '':'' @ sanitize x) kvs)
   \<and> tags (timing c m v (Some kvs)) = Some (map (\<lambda>(k, x). sanitize k @ '':'' @ sanitize x) kvs)
   \<and> tags (histogram c m v (Some kvs)) = Some (map (\<lambda>(k, x). sanitize k @ '':'' @ sanitize x) kvs)
   \<and> timed_tags (timed c mo (Some kvs) ms) =
       Some (map (\<lambda>(k, x). sanitize k @ '':'' @ sanitize x) kvs)
   \<and> list_all (\<lambda>(k, x). list_all word_char (sanitize k) \<and> list_all word_char (sanitize x)) kvs
   \<and> list_all (\<lambda>(k, x).
        sanitize k = map (\<lambda>ch. if word_char ch then ch else CHR ''_'') (str k)
        \<and> sanitize x = map (\<lambda>ch. if word_char ch then ch else CHR ''_'') (str x)) kvs"
proof -
  have "list_all (\<lambda>(k, x). list_all word_char (sanitize k) \<and> list_all word_char (sanitize x)) kvs"
    by (induction kvs) (simp_all add: sanitize_word split_beta)
  moreover have "list_all (\<lambda>(k, x).
        sanitize k = map (\<lambda>ch. if word_char ch then ch else CHR ''_'') (str k)
        \<and> sanitize x = map (\<lambda>ch. if word_char ch then ch else CHR ''_'') (str x)) kvs"
    using sanitize_map by (simp add: list_all_iff split_beta)
  ultimately show ?thesis
    by (simp add: gauge_def increment_def decrement_def timing_def histogram_def timed_def
        encode_labels_def)
qed

theorem labels_sanitized_witness:
  "[(PStr ''topic'', PStr ''my-topic''), (PStr ''partition'', PInt (- 1))] \<noteq> []
   \<and> tags (gauge \<lparr>ident = 0, client = \<lparr>ds_host = ''localhost'', ds_port = 8125,
                                        namespace = ''faust-app''\<rparr>, rate = 1 :: real\<rparr>
              ''read_offset'' (NInt 42)
              (Some [(PStr ''topic'', PStr ''my-topic''), (PStr ''partition'', PInt (- 1))])) =
       Some [''topic:my_topic'', ''partition:_1'']
   \<and> list_all word_char ''my_topic'' \<and> list_all word_char ''_1''"
  using labels_sanitized
    [of "[(PStr ''topic'', PStr ''my-topic''), (PStr ''partition'', PInt (- 1))]"
      "\<lparr>ident = 0, client = \<lparr>ds_host = ''localhost'', ds_port = 8125,
                               namespace = ''faust-app''\<rparr>, rate = 1 :: real\<rparr>"
      "''read_offset''" "NInt 42"]
  by (simp add: sanitize_keys sanitize_examples)

subsection \<open>The client property\<close>

lemma client_property_trace: "trace (snd (client_property w)) = trace w"
  by (simp add: client_property_def Let_def split: option.splits)

lemma client_property_monitor:
  "monitor (sensor (snd (client_property w))) = monitor (sensor w)"
  by (simp add: client_property_def Let_def split: option.splits)

lemma client_property_idem: "client_property (snd (client_property w)) = client_property w"
  by (simp add: client_property_def Let_def split: option.splits)

lemma fresh_trace: "trace fresh_world = []"
  by (simp add: fresh_world_def)

lemma fresh_client:
  "fst (client_property fresh_world) =
     \<lparr>ident = 0, client = \<lparr>ds_host = ''localhost'', ds_port = 8125, namespace = ''faust-app''\<rparr>,
      rate = 1\<rparr>"
  by (simp add: client_property_def fresh_world_def new_datadog_stats_client_def
      DatadogStatsClient_init_def Let_def)

text \<open>
  C9. A sensor that the constructor returns has no client and has the host, port,
  prefix and rate it was given. The first access of the property, on a sensor with
  no client, constructs one with the host, port, prefix and rate of the sensor,
  under a new identity, and stores it. After an access, any number \<open>n\<close> of further
  accesses leaves the world as it is, and the access after them returns the same
  client object: none is constructed again.
\<close>

theorem client_constructed_once:
  "(DatadogStatsMonitor_init g base_init h p pre r kwargs = Inr s \<longrightarrow>
      client_cache s = None \<and> host s = h \<and> port s = p \<and> prefix s = pre \<and> rate' s = r)
   \<and> (client_cache (sensor w) = None \<longrightarrow>
        client_property w =
          (let c = \<lparr>ident = next_id w,
                    client = \<lparr>ds_host = host (sensor w), ds_port = port (sensor w),
                              namespace = prefix (sensor w)\<rparr>,
                    rate = rate' (sensor w)\<rparr>
           in (c, w\<lparr>sensor := (sensor w)\<lparr>client_cache := Some c\<rparr>, next_id := Suc (next_id w)\<rparr>)))
   \<and> client_property (((\<lambda>x. snd (client_property x)) ^^ n) (snd (client_property w))) =
       (fst (client_property w), snd (client_property w))"
proof -
  have later: "((\<lambda>x. snd (client_property x)) ^^ n) (snd (client_property w)) = snd (client_property w)"
    by (induction n) (simp_all add: client_property_idem)
  have init: "DatadogStatsMonitor_init g base_init h p pre r kwargs = Inr s \<longrightarrow>
      client_cache s = None \<and> host s = h \<and> port s = p \<and> prefix s = pre \<and> rate' s = r"
    by (auto simp: DatadogStatsMonitor_init_def split: if_splits)
  have first: "client_cache (sensor w) = None \<longrightarrow>
        client_property w =
          (let c = \<lparr>ident = next_id w,
                    client = \<lparr>ds_host = host (sensor w), ds_port = port (sensor w),
                              namespace = prefix (sensor w)\<rparr>,
                    rate = rate' (sensor w)\<rparr>
           in (c, w\<lparr>sensor := (sensor w)\<lparr>client_cache := Some c\<rparr>, next_id := Suc (next_id w)\<rparr>))"
    by (simp add: client_property_def new_datadog_stats_client_def DatadogStatsClient_init_def
        Let_def)
  have again: "client_property (((\<lambda>x. snd (client_property x)) ^^ n) (snd (client_property w))) =
       (fst (client_property w), snd (client_property w))"
    by (simp only: later client_property_idem prod.collapse)
  from init first again show ?thesis
    by (intro conjI)
qed

theorem client_constructed_once_witness:
  "DatadogStatsMonitor_init \<lparr>datadog = Some DatadogModule\<rparr>
       (\<lambda>k. \<lparr>events_runtime = [], rest = ()\<rparr>) ''localhost'' 8125 ''faust-app'' 1 ()
     = Inr (sensor fresh_world)
   \<and> client_cache (sensor fresh_world) = None
   \<and> fst (client_property fresh_world) =
       \<lparr>ident = 0, client = \<lparr>ds_host = ''localhost'', ds_port = 8125, namespace = ''faust-app''\<rparr>,
        rate = 1\<rparr>
   \<and> next_id (snd (client_property fresh_world)) = 1
   \<and> client_property (((\<lambda>x. snd (client_property x)) ^^ 3) (snd (client_property fresh_world))) =
       (fst (client_property fresh_world), snd (client_property fresh_world))"
proof -
  note t = client_constructed_once
    [of "\<lparr>datadog = Some DatadogModule\<rparr>" "\<lambda>k. \<lparr>events_runtime = [], rest = ()\<rparr>"
      "''localhost''" 8125 "''faust-app''" 1 "()" "sensor fresh_world" fresh_world 3]
  have i: "DatadogStatsMonitor_init \<lparr>datadog = Some DatadogModule\<rparr>
       (\<lambda>k. \<lparr>events_runtime = [], rest = ()\<rparr>) ''localhost'' 8125 ''faust-app'' 1 ()
     = Inr (sensor fresh_world)"
    by (simp add: DatadogStatsMonitor_init_def fresh_world_def)
  have c: "client_cache (sensor fresh_world) = None"
    using t i by blast
  have p: "client_property fresh_world =
      (let c = \<lparr>ident = next_id fresh_world,
                client = \<lparr>ds_host = host (sensor fresh_world), ds_port = port (sensor fresh_world),
                          namespace = prefix (sensor fresh_world)\<rparr>,
                rate = rate' (sensor fresh_world)\<rparr>
       in (c, fresh_world\<lparr>sensor := (sensor fresh_world)\<lparr>client_cache := Some c\<rparr>,
                          next_id := Suc (next_id fresh_world)\<rparr>))"
    using t c by blast
  have n: "next_id (snd (client_property fresh_world)) = 1"
    unfolding p by (simp add: Let_def fresh_world_def)
  have a: "client_property (((\<lambda>x. snd (client_property x)) ^^ 3) (snd (client_property fresh_world))) =
       (fst (client_property fresh_world), snd (client_property fresh_world))"
    using t by blast
  from i c n a show ?thesis
    by (simp only: fresh_client simp_thms)
qed

subsection \<open>What the helpers of a hook do to the trace\<close>

lemma client_call_trace:
  "trace (client_call f w) = trace w @ [Emit (f (fst (client_property w)))]"
  by (simp add: client_call_def client_property_def Let_def split: option.splits prod.splits)

lemma client_call_client:
  "fst (client_property (client_call f w)) = fst (client_property w)"
  by (simp add: client_call_def client_property_def Let_def split: option.splits prod.splits)

lemma client_call_monitor:
  "monitor (sensor (client_call f w)) = monitor (sensor w)"
  by (simp add: client_call_def client_property_def Let_def split: option.splits prod.splits)

lemma super_trace: "trace (snd (super base call w)) = trace w @ [Delegate call]"
  by (simp add: super_def split: prod.splits)

lemma super_client: "fst (client_property (snd (super base call w))) = fst (client_property w)"
  by (simp add: super_def client_property_def new_datadog_stats_client_def Let_def
      split: prod.splits option.splits)

lemma super_monitor:
  "monitor (sensor (snd (super base call w))) = snd (base call (monitor (sensor w)))"
  by (simp add: super_def split: prod.splits)

lemma format_label_tp:
  "format_label (Some tp) None None =
     [(PStr ''topic'', PStr (topic tp)), (PStr ''partition'', PInt (partition' tp))]"
  by (simp add: format_label_def)

lemma format_label_tp_stream:
  "format_label (Some tp) (Some stream) None =
     [(PStr ''topic'', PStr (topic tp)), (PStr ''partition'', PInt (partition' tp)),
      (PStr ''stream'', PStr (stream_label stream))]"
  by (simp add: format_label_def)

lemma getitem_last: "xs \<noteq> [] \<Longrightarrow> getitem xs (- 1) = Inr (last xs)"
  by (cases xs rule: rev_cases) (simp_all add: getitem_def Let_def nth_append)

lemma getitem_empty: "getitem [] i = Inl IndexError"
  by (simp add: getitem_def Let_def)

subsection \<open>The trace of each hook\<close>

lemma on_message_in_trace:
  "trace (snd (on_message_in base tp offset message w)) =
     trace w @ Delegate (OnMessageIn tp offset message) #
       map Emit
         [increment (fst (client_property w)) ''messages_received'' increment_default
            (Some (format_label (Some tp) None None)),
          increment (fst (client_property w)) ''messages_active'' increment_default
            (Some (format_label (Some tp) None None)),
          gauge (fst (client_property w)) ''read_offset'' (NInt offset)
            (Some (format_label (Some tp) None None))]"
  by (simp add: on_message_in_def Let_def split_beta client_call_trace client_call_client
      super_trace super_client)

lemma on_stream_event_in_trace:
  "trace (snd (on_stream_event_in base tp offset stream event w)) =
     trace w @ Delegate (OnStreamEventIn tp offset stream event) #
       map Emit
         [increment (fst (client_property w)) ''events'' increment_default
            (Some (format_label (Some tp) (Some stream) None)),
          increment (fst (client_property w)) ''events_active'' increment_default
            (Some (format_label (Some tp) (Some stream) None))]"
  by (simp add: on_stream_event_in_def Let_def split_beta client_call_trace client_call_client
      super_trace super_client)

lemma on_stream_event_out_empty:
  assumes "events_runtime (snd (base (OnStreamEventOut tp offset stream event)
             (monitor (sensor w)))) = []"
  shows "fst (on_stream_event_out fl base tp offset stream event w) = Inl IndexError"
    and "trace (snd (on_stream_event_out fl base tp offset stream event w)) =
      trace w @ Delegate (OnStreamEventOut tp offset stream event) #
        map Emit
          [decrement (fst (client_property w)) ''events_active'' (decrement_default fl)
             (Some (format_label (Some tp) (Some stream) None))]"
  using assms
  by (simp_all add: on_stream_event_out_def Let_def split_beta client_call_trace
      client_call_client client_call_monitor client_property_trace super_trace super_client
      super_monitor getitem_empty client_property_monitor)

lemma on_stream_event_out_nonempty:
  assumes "events_runtime (snd (base (OnStreamEventOut tp offset stream event)
             (monitor (sensor w)))) \<noteq> []"
  shows "fst (on_stream_event_out fl base tp offset stream event w) = Inr None"
    and "trace (snd (on_stream_event_out fl base tp offset stream event w)) =
      trace w @ Delegate (OnStreamEventOut tp offset stream event) #
        map Emit
          [decrement (fst (client_property w)) ''events_active'' (decrement_default fl)
             (Some (format_label (Some tp) (Some stream) None)),
           timing (fst (client_property w)) ''events_runtime''
             (NFloat (time fl (last (events_runtime
                (snd (base (OnStreamEventOut tp offset stream event) (monitor (sensor w))))))))
             (Some (format_label (Some tp) (Some stream) None))]"
  using assms
  by (simp_all add: on_stream_event_out_def Let_def split_beta client_call_trace
      client_call_client client_call_monitor client_property_trace super_trace super_client
      super_monitor getitem_last client_property_monitor)

lemma on_message_out_trace:
  "trace (snd (on_message_out fl base tp offset message w)) =
     trace w @ Delegate (OnMessageOut tp offset message) #
       map Emit
         [decrement (fst (client_property w)) ''messages_active'' (decrement_default fl)
            (Some (format_label (Some tp) None None))]"
  by (simp add: on_message_out_def Let_def split_beta client_call_trace super_trace
      super_client)

lemma on_table_get_trace:
  "trace (snd (on_table_get base table key w)) =
     trace w @ Delegate (OnTableGet table key) #
       map Emit
         [increment (fst (client_property w)) ''table_keys_retrieved'' increment_default
            (Some (format_label None None (Some table)))]"
  by (simp add: on_table_get_def Let_def split_beta client_call_trace super_trace super_client)

lemma on_table_set_trace:
  "trace (snd (on_table_set base table key v w)) =
     trace w @ Delegate (OnTableSet table key v) #
       map Emit
         [increment (fst (client_property w)) ''table_keys_updated'' increment_default
            (Some (format_label None None (Some table)))]"
  by (simp add: on_table_set_def Let_def split_beta client_call_trace super_trace super_client)

lemma on_table_del_trace:
  "trace (snd (on_table_del base table key w)) =
     trace w @ Delegate (OnTableDel table key) #
       map Emit
         [increment (fst (client_property w)) ''table_keys_deleted'' increment_default
            (Some (format_label None None (Some table)))]"
  by (simp add: on_table_del_def Let_def split_beta client_call_trace super_trace super_client)

lemma on_commit_completed_trace:
  "trace (snd (on_commit_completed fl base now consumer state w)) =
     trace w @ Delegate (OnCommitCompleted consumer state) #
       map Emit
         [timing (fst (client_property w)) ''commit_latency'' (NFloat (time fl (fsub fl now state))) None]"
  by (simp add: on_commit_completed_def Let_def split_beta client_call_trace super_trace
      super_client)

lemma on_send_initiated_trace:
  "trace (snd (on_send_initiated base producer tpc keysize valsize w)) =
     trace w @
       [Emit (increment (fst (client_property w)) ''topic_messages_sent'' increment_default
                (Some [(PStr ''topic'', PStr tpc)])),
        Delegate (OnSendInitiated producer tpc keysize valsize)]"
  by (simp add: on_send_initiated_def Let_def split_beta client_call_trace super_trace)

lemma on_send_completed_trace:
  "trace (snd (on_send_completed fl base now producer state w)) =
     trace w @ Delegate (OnSendCompleted producer state) #
       map Emit
         [increment (fst (client_property w)) ''messages_sent'' increment_default None,
          timing (fst (client_property w)) ''send_latency'' (NFloat (time fl (fsub fl now state))) None]"
  by (simp add: on_send_completed_def Let_def split_beta client_call_trace client_call_client
      super_trace super_client)

lemma count_trace:
  "trace (snd (count base metric_name n w)) =
     trace w @ Delegate (Count metric_name n) #
       map Emit [increment (fst (client_property w)) metric_name (NInt n) None]"
  by (simp add: count_def Let_def split_beta client_call_trace super_trace super_client)

lemma tp_commit_loop_trace:
  "\<exists>ems. trace (tp_commit_loop items w) = trace w @ map Emit ems"
proof (induction items arbitrary: w)
  case Nil
  show ?case by simp
next
  case (Cons item items)
  obtain tp offset where item: "item = (tp, offset)"
    by (cases item)
  let ?f = "\<lambda>c. gauge c ''committed_offset'' (NInt offset) (Some (format_label (Some tp) None None))"
  obtain ems where "trace (tp_commit_loop items (client_call ?f w)) =
      trace (client_call ?f w) @ map Emit ems"
    using Cons.IH by blast
  then have "trace (tp_commit_loop (item # items) w) =
      trace w @ map Emit (?f (fst (client_property w)) # ems)"
    by (simp add: item client_call_trace)
  then show ?case by blast
qed

lemma on_tp_commit_trace:
  "\<exists>ems. trace (snd (on_tp_commit base tp_offsets w)) =
     trace w @ Delegate (OnTpCommit tp_offsets) # map Emit ems"
proof -
  obtain ems where
    "trace (tp_commit_loop tp_offsets (snd (super base (OnTpCommit tp_offsets) w))) =
      trace (snd (super base (OnTpCommit tp_offsets) w)) @ map Emit ems"
    using tp_commit_loop_trace by blast
  then have "trace (snd (on_tp_commit base tp_offsets w)) =
      trace w @ Delegate (OnTpCommit tp_offsets) # map Emit ems"
    by (simp add: on_tp_commit_def split_beta super_trace)
  then show ?thesis by blast
qed

lemma track_tp_end_offset_trace:
  "trace (snd (track_tp_end_offset base tp offset w)) =
     trace w @ Delegate (TrackTpEndOffset tp offset) #
       map Emit
         [gauge (fst (client_property w)) ''end_offset'' (NInt offset)
            (Some (format_label (Some tp) None None))]"
  by (simp add: track_tp_end_offset_def Let_def split_beta client_call_trace super_trace
      super_client)

lemma on_send_initiated_result:
  "fst (on_send_initiated base producer tpc keysize valsize w) =
     Inr (Some (fst (base (OnSendInitiated producer tpc keysize valsize) (monitor (sensor w)))))"
  by (simp add: on_send_initiated_def Let_def split_beta client_call_monitor super_def)

subsection \<open>The order of delegation and emission\<close>

text \<open>
  C2. The claim: every hook delegates to the base class before it calls the
  client. As amended: every hook but \<^verbatim>\<open>on_send_initiated\<close> adds to the trace the
  delegation first and after it calls of the client only; \<^verbatim>\<open>on_send_initiated\<close>
  adds first its one call of the client, the increment of \<^verbatim>\<open>topic_messages_sent\<close>
  by 1 with the topic as its only label, and after it the delegation, and it
  returns what the delegation returns.
\<close>

theorem delegation_before_emission_except_send_initiated:
  "(\<not> is_send_initiated call \<longrightarrow>
      (\<exists>ems. trace (snd (run_hook fl base now call w)) = trace w @ Delegate call # map Emit ems))
   \<and> (\<forall>producer tpc keysize valsize.
        call = OnSendInitiated producer tpc keysize valsize \<longrightarrow>
          trace (snd (run_hook fl base now call w)) =
            trace w @
              [Emit \<lparr>kind = Increment, metric = ''topic_messages_sent'', val = NInt 1,
                     labels = Some [(PStr ''topic'', PStr tpc)],
                     tags = Some [''topic:'' @ sanitize (PStr tpc)],
                     sample_rate = rate (fst (client_property w))\<rparr>,
               Delegate call]
          \<and> fst (run_hook fl base now call w) = Inr (Some (fst (base call (monitor (sensor w))))))"
proof (cases call)
  case (OnMessageIn tp offset message)
  then show ?thesis
    using on_message_in_trace [of base tp offset message w]
    by (simp add: is_send_initiated_def del: list.map) blast
next
  case (OnStreamEventIn tp offset stream event)
  then show ?thesis
    using on_stream_event_in_trace [of base tp offset stream event w]
    by (simp add: is_send_initiated_def del: list.map) blast
next
  case (OnStreamEventOut tp offset stream event)
  have "\<exists>ems. trace (snd (on_stream_event_out fl base tp offset stream event w)) =
      trace w @ Delegate (OnStreamEventOut tp offset stream event) # map Emit ems"
  proof (cases "events_runtime (snd (base (OnStreamEventOut tp offset stream event)
                  (monitor (sensor w)))) = []")
    case True
    from on_stream_event_out_empty(2) [of base tp offset stream event w fl, OF True]
    show ?thesis by blast
  next
    case False
    from on_stream_event_out_nonempty(2) [of base tp offset stream event w fl, OF False]
    show ?thesis by blast
  qed
  with OnStreamEventOut show ?thesis
    by (simp add: is_send_initiated_def)
next
  case (OnMessageOut tp offset message)
  then show ?thesis
    using on_message_out_trace [of fl base tp offset message w]
    by (simp add: is_send_initiated_def del: list.map) blast
next
  case (OnTableGet table key)
  then show ?thesis
    using on_table_get_trace [of base table key w]
    by (simp add: is_send_initiated_def del: list.map) blast
next
  case (OnTableSet table key v)
  then show ?thesis
    using on_table_set_trace [of base table key v w]
    by (simp add: is_send_initiated_def del: list.map) blast
next
  case (OnTableDel table key)
  then show ?thesis
    using on_table_del_trace [of base table key w]
    by (simp add: is_send_initiated_def del: list.map) blast
next
  case (OnCommitCompleted consumer state)
  then show ?thesis
    using on_commit_completed_trace [of fl base now consumer state w]
    by (simp add: is_send_initiated_def del: list.map) blast
next
  case (OnSendInitiated producer tpc keysize valsize)
  then show ?thesis
    by (simp add: is_send_initiated_def on_send_initiated_trace on_send_initiated_result
        increment_def increment_default_def encode_labels_def sanitize_keys)
next
  case (OnSendCompleted producer state)
  then show ?thesis
    using on_send_completed_trace [of fl base now producer state w]
    by (simp add: is_send_initiated_def del: list.map) blast
next
  case (Count metric_name n)
  then show ?thesis
    using count_trace [of base metric_name n w]
    by (simp add: is_send_initiated_def del: list.map) blast
next
  case (OnTpCommit tp_offsets)
  then show ?thesis
    using on_tp_commit_trace [of base tp_offsets w]
    by (simp add: is_send_initiated_def)
next
  case (TrackTpEndOffset tp offset)
  then show ?thesis
    using track_tp_end_offset_trace [of base tp offset w]
    by (simp add: is_send_initiated_def del: list.map) blast
qed

theorem delegation_order_witness:
  "(\<exists>ems. trace (snd (run_hook exact_floats idle_base 0 (OnMessageIn orders_2 42 ())
                       fresh_world)) =
       trace fresh_world @ Delegate (OnMessageIn orders_2 42 ()) # map Emit ems)
   \<and> trace (snd (run_hook exact_floats idle_base 0 (OnSendInitiated () ''payments'' 3 5)
                   fresh_world)) =
       [Emit \<lparr>kind = Increment, metric = ''topic_messages_sent'', val = NInt 1,
              labels = Some [(PStr ''topic'', PStr ''payments'')],
              tags = Some [''topic:payments''], sample_rate = 1\<rparr>,
        Delegate (OnSendInitiated () ''payments'' 3 5)]
   \<and> fst (run_hook exact_floats idle_base 0 (OnSendInitiated () ''payments'' 3 5) fresh_world) =
       Inr (Some 0)"
proof -
  note a = delegation_before_emission_except_send_initiated
      [of "OnMessageIn orders_2 42 ()" exact_floats idle_base 0 fresh_world]
  note b = delegation_before_emission_except_send_initiated
      [of "OnSendInitiated () ''payments'' 3 5" exact_floats idle_base 0 fresh_world]
  have 1: "\<exists>ems. trace (snd (run_hook exact_floats idle_base 0 (OnMessageIn orders_2 42 ())
                       fresh_world)) =
       trace fresh_world @ Delegate (OnMessageIn orders_2 42 ()) # map Emit ems"
    using a by (simp add: is_send_initiated_def)
  have 2: "trace (snd (run_hook exact_floats idle_base 0 (OnSendInitiated () ''payments'' 3 5)
                   fresh_world)) =
       [Emit \<lparr>kind = Increment, metric = ''topic_messages_sent'', val = NInt 1,
              labels = Some [(PStr ''topic'', PStr ''payments'')],
              tags = Some [''topic:payments''], sample_rate = 1\<rparr>,
        Delegate (OnSendInitiated () ''payments'' 3 5)]
   \<and> fst (run_hook exact_floats idle_base 0 (OnSendInitiated () ''payments'' 3 5) fresh_world) =
       Inr (Some 0)"
    using b by (simp add: fresh_trace fresh_client sanitize_examples idle_base_def)
  from 1 2 show ?thesis by blast
qed

text \<open>
  The counterexample to C2 as it is stated: \<^verbatim>\<open>on_send_initiated\<close> on a new sensor
  calls the client first; the delegation is the second event of the trace.
\<close>

theorem send_initiated_emits_before_delegating:
  "trace (snd (run_hook exact_floats idle_base 0 (OnSendInitiated () ''payments'' 3 5)
                 fresh_world)) =
     [Emit \<lparr>kind = Increment, metric = ''topic_messages_sent'', val = NInt 1,
            labels = Some [(PStr ''topic'', PStr ''payments'')],
            tags = Some [''topic:payments''], sample_rate = 1\<rparr>,
      Delegate (OnSendInitiated () ''payments'' 3 5)]"
  by (simp add: on_send_initiated_trace fresh_client fresh_trace increment_def
      increment_default_def encode_labels_def sanitize_keys sanitize_examples)

subsection \<open>The calls a hook emits\<close>

text \<open>
  C4. For every topic-partition, offset and message, \<^verbatim>\<open>on_message_in\<close> returns and
  adds to the trace, after the delegation, exactly three calls of the client: an
  increment of \<^verbatim>\<open>messages_received\<close> by 1, an increment of \<^verbatim>\<open>messages_active\<close> by 1
  and a gauge \<^verbatim>\<open>read_offset\<close> of the offset, each with the labels topic and
  partition of the topic-partition and no other label.
\<close>

theorem message_in_emits_three_calls:
  "fst (on_message_in base tp offset message w) = Inr None \<and>
   trace (snd (on_message_in base tp offset message w)) =
     (let ls = [(PStr ''topic'', PStr (topic tp)), (PStr ''partition'', PInt (partition' tp))];
          ts = [''topic:'' @ sanitize (PStr (topic tp)),
                ''partition:'' @ sanitize (PInt (partition' tp))];
          r = rate (fst (client_property w))
      in trace w @
         [Delegate (OnMessageIn tp offset message),
          Emit \<lparr>kind = Increment, metric = ''messages_received'', val = NInt 1,
                labels = Some ls, tags = Some ts, sample_rate = r\<rparr>,
          Emit \<lparr>kind = Increment, metric = ''messages_active'', val = NInt 1,
                labels = Some ls, tags = Some ts, sample_rate = r\<rparr>,
          Emit \<lparr>kind = Gauge, metric = ''read_offset'', val = NInt offset,
                labels = Some ls, tags = Some ts, sample_rate = r\<rparr>])"
proof -
  have "fst (on_message_in base tp offset message w) = Inr None"
    by (simp add: on_message_in_def Let_def split_beta)
  then show ?thesis
    by (simp add: on_message_in_trace Let_def format_label_tp increment_def gauge_def
        encode_labels_def increment_default_def sanitize_keys)
qed

lemma message_in_orders_example:
  "trace (snd (on_message_in idle_base orders_2 42 () fresh_world)) =
     [Delegate (OnMessageIn orders_2 42 ()),
      Emit \<lparr>kind = Increment, metric = ''messages_received'', val = NInt 1,
            labels = Some [(PStr ''topic'', PStr ''orders''), (PStr ''partition'', PInt 2)],
            tags = Some [''topic:orders'', ''partition:2''], sample_rate = 1\<rparr>,
      Emit \<lparr>kind = Increment, metric = ''messages_active'', val = NInt 1,
            labels = Some [(PStr ''topic'', PStr ''orders''), (PStr ''partition'', PInt 2)],
            tags = Some [''topic:orders'', ''partition:2''], sample_rate = 1\<rparr>,
      Emit \<lparr>kind = Gauge, metric = ''read_offset'', val = NInt 42,
            labels = Some [(PStr ''topic'', PStr ''orders''), (PStr ''partition'', PInt 2)],
            tags = Some [''topic:orders'', ''partition:2''], sample_rate = 1\<rparr>]"
  by (simp add: on_message_in_trace fresh_trace fresh_client format_label_tp increment_def
      gauge_def encode_labels_def increment_default_def sanitize_keys sanitize_examples
      orders_2_def)

text \<open>
  C6. For every topic, \<^verbatim>\<open>on_send_initiated\<close> emits one call of the client, an
  increment of \<^verbatim>\<open>topic_messages_sent\<close> by 1 whose labels are the one item topic,
  with no partition and no other key, and returns what the base class returns.
\<close>

theorem send_initiated_labels_topic_only:
  "trace (snd (on_send_initiated base producer tpc keysize valsize w)) =
     trace w @
       [Emit \<lparr>kind = Increment, metric = ''topic_messages_sent'', val = NInt 1,
              labels = Some [(PStr ''topic'', PStr tpc)],
              tags = Some [''topic:'' @ sanitize (PStr tpc)],
              sample_rate = rate (fst (client_property w))\<rparr>,
        Delegate (OnSendInitiated producer tpc keysize valsize)]
   \<and> fst (on_send_initiated base producer tpc keysize valsize w) =
       Inr (Some (fst (base (OnSendInitiated producer tpc keysize valsize) (monitor (sensor w)))))"
  by (simp add: on_send_initiated_def Let_def split_beta client_call_trace client_call_monitor
      super_trace increment_def encode_labels_def increment_default_def sanitize_keys super_def)

subsection \<open>The hook of a finished stream event\<close>

text \<open>
  What \<^verbatim>\<open>on_stream_event_out\<close> emits when the history of runtimes is not empty
  after the delegation: the decrement of \<^verbatim>\<open>events_active\<close> by 1.0 and the timing
  \<^verbatim>\<open>events_runtime\<close> of the float product of the last runtime and 1000.0, both with
  the labels topic, partition and stream, the last being what \<^verbatim>\<open>_stream_label\<close>
  returns.
\<close>

lemma on_stream_event_out_calls:
  assumes "events_runtime (snd (base (OnStreamEventOut tp offset stream event)
             (monitor (sensor w)))) \<noteq> []"
  shows "trace (snd (on_stream_event_out fl base tp offset stream event w)) =
     (let ls = [(PStr ''topic'', PStr (topic tp)), (PStr ''partition'', PInt (partition' tp)),
                (PStr ''stream'', PStr (stream_label stream))];
          ts = [''topic:'' @ sanitize (PStr (topic tp)),
                ''partition:'' @ sanitize (PInt (partition' tp)),
                ''stream:'' @ sanitize (PStr (stream_label stream))];
          r = rate (fst (client_property w));
          h = events_runtime (snd (base (OnStreamEventOut tp offset stream event)
                (monitor (sensor w))))
      in trace w @
         [Delegate (OnStreamEventOut tp offset stream event),
          Emit \<lparr>kind = Decrement, metric = ''events_active'', val = NFloat (f1 fl),
                labels = Some ls, tags = Some ts, sample_rate = r\<rparr>,
          Emit \<lparr>kind = Timing, metric = ''events_runtime'',
                val = NFloat (fmul fl (last h) (f1000 fl)),
                labels = Some ls, tags = Some ts, sample_rate = r\<rparr>])"
  using on_stream_event_out_nonempty(2) [of base tp offset stream event w fl, OF assms]
  by (simp add: Let_def format_label_tp_stream decrement_def timing_def encode_labels_def
      decrement_default_def sanitize_keys time_def)

lemma recording_base_records:
  "events_runtime (snd (recording_base t (OnStreamEventOut tp offset stream event) m)) =
     events_runtime m @ [t]"
  by (simp add: recording_base_def)

lemma stream_label_rates:
  "stream_label \<lparr>shortlabel = ''Stream:rates''\<rparr> = ''s''"
  "stream_label_spec ''Stream:rates'' = ''rates''"
  "sanitize (PStr ''s'') = ''s''"
  by code_simp+

text \<open>
  C5. The claim: every call of \<^verbatim>\<open>on_stream_event_out\<close> emits a decrement of
  \<^verbatim>\<open>events_active\<close> by 1 and a timing \<^verbatim>\<open>events_runtime\<close> of the last recorded
  runtime times 1000, both with the labels topic, partition and the normalized
  label of the stream. For the stream labelled \<^verbatim>\<open>Stream:rates\<close>, with a base class
  that records the runtime 0.25, the hook emits both calls with the value the
  claim gives, but the label of the stream in them is \<^verbatim>\<open>s\<close> where the
  normalization of the claim gives \<^verbatim>\<open>rates\<close>: the hook takes the label from
  \<^verbatim>\<open>_stream_label\<close>, whose \<^verbatim>\<open>lstrip\<close> removes a set of characters and not the prefix.
\<close>

theorem stream_event_out_label_strips_character_set:
  "trace (snd (on_stream_event_out exact_floats (recording_base (1 / 4)) orders_2 42
                 \<lparr>shortlabel = ''Stream:rates''\<rparr> () fresh_world)) =
     [Delegate (OnStreamEventOut orders_2 42 \<lparr>shortlabel = ''Stream:rates''\<rparr> ()),
      Emit \<lparr>kind = Decrement, metric = ''events_active'', val = NFloat 1,
            labels = Some [(PStr ''topic'', PStr ''orders''), (PStr ''partition'', PInt 2),
                           (PStr ''stream'', PStr ''s'')],
            tags = Some [''topic:orders'', ''partition:2'', ''stream:s''],
            sample_rate = 1\<rparr>,
      Emit \<lparr>kind = Timing, metric = ''events_runtime'', val = NFloat 250,
            labels = Some [(PStr ''topic'', PStr ''orders''), (PStr ''partition'', PInt 2),
                           (PStr ''stream'', PStr ''s'')],
            tags = Some [''topic:orders'', ''partition:2'', ''stream:s''],
            sample_rate = 1\<rparr>]
   \<and> stream_label_spec ''Stream:rates'' = ''rates''"
proof -
  have h: "events_runtime (snd (recording_base (1 / 4)
      (OnStreamEventOut orders_2 42 \<lparr>shortlabel = ''Stream:rates''\<rparr> ())
      (monitor (sensor fresh_world)))) = [1 / 4]"
    by (simp add: recording_base_records fresh_world_def)
  then have h': "events_runtime (snd (recording_base (1 / 4)
      (OnStreamEventOut orders_2 42 \<lparr>shortlabel = ''Stream:rates''\<rparr> ())
      (monitor (sensor fresh_world)))) \<noteq> []"
    by simp
  show ?thesis
    using on_stream_event_out_calls
        [of "recording_base (1 / 4)" orders_2 42 "\<lparr>shortlabel = ''Stream:rates''\<rparr>" "()"
          fresh_world exact_floats, OF h'] h
    by (simp add: fresh_trace fresh_client orders_2_def stream_label_rates sanitize_examples
        Let_def exact_floats_def)
qed

text \<open>
  C10. When the history of runtimes is not empty after the delegation to the base
  class, the read of its last element in \<^verbatim>\<open>on_stream_event_out\<close> is in bounds and
  the hook returns; when the history is empty there, the read raises
  \<^verbatim>\<open>IndexError\<close> and so does the hook.
\<close>

theorem stream_event_out_completes_iff_history:
  "(events_runtime (snd (base (OnStreamEventOut tp offset stream event) (monitor (sensor w)))) \<noteq> []
      \<longrightarrow> getitem (events_runtime (snd (base (OnStreamEventOut tp offset stream event)
                      (monitor (sensor w))))) (- 1)
            = Inr (last (events_runtime (snd (base (OnStreamEventOut tp offset stream event)
                      (monitor (sensor w))))))
          \<and> fst (on_stream_event_out fl base tp offset stream event w) = Inr None)
   \<and> (events_runtime (snd (base (OnStreamEventOut tp offset stream event) (monitor (sensor w)))) = []
      \<longrightarrow> getitem (events_runtime (snd (base (OnStreamEventOut tp offset stream event)
                      (monitor (sensor w))))) (- 1) = Inl IndexError
          \<and> fst (on_stream_event_out fl base tp offset stream event w) = Inl IndexError)"
  by (simp add: on_stream_event_out_empty(1) on_stream_event_out_nonempty(1) getitem_last
      getitem_empty)

theorem stream_event_out_completes_iff_history_witness:
  "fst (on_stream_event_out exact_floats idle_base orders_2 42
          \<lparr>shortlabel = ''Stream: Topic: orders''\<rparr> () busy_world) = Inr None
   \<and> fst (on_stream_event_out exact_floats idle_base orders_2 42
          \<lparr>shortlabel = ''Stream: Topic: orders''\<rparr> () fresh_world) = Inl IndexError"
  using stream_event_out_completes_iff_history
      [of idle_base orders_2 42 "\<lparr>shortlabel = ''Stream: Topic: orders''\<rparr>" "()" busy_world
        exact_floats]
    stream_event_out_completes_iff_history
      [of idle_base orders_2 42 "\<lparr>shortlabel = ''Stream: Topic: orders''\<rparr>" "()" fresh_world
        exact_floats]
  by (simp add: idle_base_def busy_world_def fresh_world_def)

end
